theory Spec2Isabelle
  imports Main "HOL-Library.Sublist"
begin

section \<open>Python strings\<close>

text \<open>
  A Python \<open>str\<close> is a sequence of Unicode code points, so it is modelled as a list of
  code points (natural numbers). \<open>lit\<close> turns an ASCII literal of the source into such
  a list.
\<close>

type_synonym pstr = "nat list"

definition lit :: "string \<Rightarrow> pstr" where
  "lit s = map of_char s"

text \<open>
  \<open>str.isspace\<close> for one code point: the characters \<open>str.strip()\<close> removes from both
  ends when it is called without an argument.
\<close>

definition is_space :: "nat \<Rightarrow> bool" where
  "is_space c \<longleftrightarrow>
     (9 \<le> c \<and> c \<le> 13) \<or> (28 \<le> c \<and> c \<le> 32) \<or> c = 133 \<or> c = 160 \<or> c = 5760 \<or>
     (8192 \<le> c \<and> c \<le> 8202) \<or> c = 8232 \<or> c = 8233 \<or> c = 8239 \<or> c = 8287 \<or>
     c = 12288"

definition strip :: "pstr \<Rightarrow> pstr" where
  "strip s = rev (dropWhile is_space (rev (dropWhile is_space s)))"

text \<open>\<open>sub in s\<close> for strings: \<open>sub\<close> occurs in \<open>s\<close> as a contiguous substring.\<close>

fun contains :: "pstr \<Rightarrow> pstr \<Rightarrow> bool" where
  "contains sub [] \<longleftrightarrow> sub = []"
| "contains sub (c # cs) \<longleftrightarrow> prefix sub (c # cs) \<or> contains sub cs"

text \<open>
  \<open>s.replace(old, new)\<close>: every non-overlapping occurrence of \<open>old\<close>, found from left to
  right, is replaced by \<open>new\<close>; with an empty \<open>old\<close>, \<open>new\<close> is inserted before every
  character and at the end.
\<close>

function str_replace :: "pstr \<Rightarrow> pstr \<Rightarrow> pstr \<Rightarrow> pstr" where
  "str_replace [] old new = (if old = [] then new else [])"
| "str_replace (c # cs) old new =
     (if old = [] then new @ c # str_replace cs old new
      else if prefix old (c # cs)
        then new @ str_replace (drop (length old) (c # cs)) old new
      else c # str_replace cs old new)"
  by pat_completeness auto
termination
  by (relation "measure (\<lambda>(s, old, new). length s)") auto

text \<open>\<open>s[k::step]\<close> for \<open>k \<ge> 0\<close> and \<open>step > 0\<close>: the characters at \<open>k\<close>, \<open>k + step\<close>, ...\<close>

fun every_nth :: "nat \<Rightarrow> 'a list \<Rightarrow> 'a list" where
  "every_nth step [] = []"
| "every_nth step (x # xs) = x # every_nth step (drop (step - 1) xs)"

definition slice_from_step :: "'a list \<Rightarrow> nat \<Rightarrow> nat \<Rightarrow> 'a list" where
  "slice_from_step s k step = every_nth step (drop k s)"

text \<open>The format specification \<open>{n:d}\<close>: the decimal digits of an integer, with its sign.\<close>

fun digits :: "nat \<Rightarrow> pstr" where
  "digits n = (if n < 10 then [48 + n] else digits (n div 10) @ [48 + n mod 10])"

declare digits.simps [simp del]

definition format_d :: "int \<Rightarrow> pstr" where
  "format_d n = (if n < 0 then 45 # digits (nat (- n)) else digits (nat n))"

section \<open>jinja\_utils: the ordinal day of the month\<close>

text \<open>
  \<open>time.struct_time\<close>, and the nested function \<open>ordinal\<close> of \<open>strftime_with_ordinal\<close>:
  \<^verbatim>\<open>f"{n:d}{'tsnrhtdd'[(n // 10 % 10 != 1) * (n % 10 < 4) * n % 10::4]}"\<close>.
  A Python \<open>bool\<close> multiplies as 0 or 1, \<open>*\<close> and \<open>%\<close> associate to the left, and
  \<open>//\<close> and \<open>%\<close> round towards minus infinity, as \<open>div\<close> and \<open>mod\<close> on \<open>int\<close> do.
\<close>

record struct_time =
  tm_year :: int
  tm_mon :: int
  tm_mday :: int
  tm_hour :: int
  tm_min :: int
  tm_sec :: int
  tm_wday :: int
  tm_yday :: int
  tm_isdst :: int

definition of_bool_int :: "bool \<Rightarrow> int" where
  "of_bool_int b = (if b then 1 else 0)"

definition ordinal :: "int \<Rightarrow> pstr" where
  "ordinal n =
     format_d n @
     slice_from_step (lit ''tsnrhtdd'')
       (nat ((of_bool_int (n div 10 mod 10 \<noteq> 1) * of_bool_int (n mod 10 < 4) * n) mod 10)) 4"

text \<open>
  \<open>strftime_with_ordinal(fmt, t)\<close>. The library function \<open>time.strftime\<close> is the
  parameter \<open>strftime\<close>, and \<open>now\<close> is what \<open>time.localtime()\<close> returns at the
  moment of the call; it is read only when \<open>t\<close> is \<open>None\<close>.
\<close>

definition strftime_with_ordinal ::
  "(pstr \<Rightarrow> struct_time \<Rightarrow> pstr) \<Rightarrow> struct_time \<Rightarrow> pstr \<Rightarrow> struct_time option \<Rightarrow> pstr" where
  "strftime_with_ordinal strftime now fmt t =
     (let t' = (case t of None \<Rightarrow> now | Some u \<Rightarrow> u)
      in strftime (str_replace fmt (lit ''%O'') (ordinal (tm_mday t'))) t')"

text \<open>The suffix rule as the specification words it.\<close>

definition ordinal_suffix :: "int \<Rightarrow> pstr" where
  "ordinal_suffix n =
     (if n mod 10 = 1 \<and> n \<noteq> 11 then lit ''st''
      else if n mod 10 = 2 \<and> n \<noteq> 12 then lit ''nd''
      else if n mod 10 = 3 \<and> n \<noteq> 13 then lit ''rd''
      else lit ''th'')"

section \<open>The deck as the presentation service returns it\<close>

text \<open>
  The JSON documents of the service are dictionaries; a key that may be absent is an
  optional field. \<open>json\<close> stands for values the program only passes on (the size and
  the transform of a page element, the replies of a batch update).
\<close>

datatype json = JNull | JInt int | JStr pstr | JObj "(pstr \<times> json) list"

record text_run =
  content :: "pstr option"

record text_element =
  textRun :: "text_run option"

record text_content =
  textElements :: "text_element list option"

record shape =
  shapeType :: "pstr option"
  shape_text :: "text_content option"

record page_element =
  el_objectId :: "pstr option"
  el_size :: "json option"
  el_transform :: "json option"
  el_shape :: "shape option"

record slide =
  slide_objectId :: "pstr option"
  pageElements :: "page_element list option"

record presentation =
  pres_slides :: "slide list option"

text \<open>The exceptions of the program; \<open>Exit c\<close> is \<open>typer.Exit(code=c)\<close>.\<close>

datatype exn =
  KeyError | IndexError | TypeError | AttributeError | TemplateError | HttpError | OSError
  | Exit nat

section \<open>slides\_utils\<close>

text \<open>
  \<open>get_slide_id_by_index\<close>: \<open>slides[index - 1].get("objectId")\<close> inside the guard
  \<open>0 < index <= len(slides)\<close>, \<open>None\<close> outside of it.
\<close>

definition get_slide_id_by_index :: "slide list \<Rightarrow> int \<Rightarrow> pstr option" where
  "get_slide_id_by_index slides index =
     (if 0 < index \<and> index \<le> int (length slides)
      then slide_objectId (slides ! nat (index - 1))
      else None)"

text \<open>
  \<open>get_text_elements_from_slide\<close>. The filter keeps an element when \<open>el.get("shape")\<close>
  is truthy and its \<open>shapeType\<close> is \<open>"TEXT_BOX"\<close>; an empty (falsy) shape dictionary
  has no \<open>shapeType\<close>, so the second test alone decides.
\<close>

definition is_text_box :: "page_element \<Rightarrow> bool" where
  "is_text_box el =
     (case el_shape el of None \<Rightarrow> False
      | Some sh \<Rightarrow> shapeType sh = Some (lit ''TEXT_BOX''))"

definition get_text_elements_from_slide :: "slide \<Rightarrow> page_element list" where
  "get_text_elements_from_slide slide =
     filter is_text_box (case pageElements slide of None \<Rightarrow> [] | Some els \<Rightarrow> els)"

text \<open>
  \<open>gslides_element_to_text\<close>. Indexing a dictionary with a missing key raises
  \<open>KeyError\<close>: \<open>el["shape"]\<close>, \<open>["textElements"]\<close> and \<open>["content"]\<close> can.
  The lambda yields \<open>""\<close> for a text element without \<open>textRun\<close>.
\<close>

record text_record =
  object_id :: "pstr option"
  page_object_id :: "pstr option"
  rec_text :: pstr

definition text_el_content :: "text_element \<Rightarrow> exn + pstr" where
  "text_el_content text_el =
     (case textRun text_el of None \<Rightarrow> Inr []
      | Some run \<Rightarrow> (case content run of None \<Rightarrow> Inl KeyError | Some c \<Rightarrow> Inr c))"

fun join_contents :: "text_element list \<Rightarrow> exn + pstr" where
  "join_contents [] = Inr []"
| "join_contents (text_el # rest) =
     (case text_el_content text_el of Inl e \<Rightarrow> Inl e
      | Inr c \<Rightarrow> (case join_contents rest of Inl e \<Rightarrow> Inl e | Inr r \<Rightarrow> Inr (c @ r)))"

definition gslides_element_to_text :: "page_element \<Rightarrow> pstr option \<Rightarrow> exn + text_record" where
  "gslides_element_to_text el pid =
     (case el_shape el of None \<Rightarrow> Inl KeyError
      | Some sh \<Rightarrow>
         (case shape_text sh of
            None \<Rightarrow> Inr \<lparr>object_id = el_objectId el, page_object_id = pid, rec_text = []\<rparr>
          | Some tc \<Rightarrow>
             (case textElements tc of None \<Rightarrow> Inl KeyError
              | Some text_els \<Rightarrow>
                 (case join_contents text_els of Inl e \<Rightarrow> Inl e
                  | Inr text \<Rightarrow>
                     Inr \<lparr>object_id = el_objectId el, page_object_id = pid,
                          rec_text = strip text\<rparr>))))"

text \<open>The requests of a batch update, and \<open>text_update_to_gslides_request\<close>.\<close>

record replace_all_text =
  containsText_text :: pstr
  containsText_matchCase :: bool
  replaceText :: pstr
  pageObjectIds :: "pstr option list"

record create_image =
  url :: pstr
  ep_pageObjectId :: "pstr option"
  ep_size :: "json option"
  ep_transform :: "json option"

datatype request =
    ReplaceAllText replace_all_text
  | DeleteObject "pstr option"
  | DuplicateObject "pstr option"
  | CreateImage create_image

record change =
  original_text :: pstr
  rendered_text :: pstr
  ch_page_object_id :: "pstr option"
  ch_object_id :: "pstr option"

definition text_update_to_gslides_request :: "change \<Rightarrow> request" where
  "text_update_to_gslides_request ch =
     ReplaceAllText \<lparr>containsText_text = original_text ch, containsText_matchCase = True,
       replaceText = rendered_text ch, pageObjectIds = [ch_page_object_id ch]\<rparr>"

section \<open>jinja\_utils: rendering\<close>

text \<open>
  \<open>render_jinja_in_string(jinja_env, template_string, data)\<close>. The template engine is
  the parameter \<open>jinja_env\<close>: what \<open>jinja_env.from_string(t).render(**ctx)\<close> returns or
  raises. \<open>now\<close> is the value of \<open>time.localtime()\<close> at this call. In the dictionary
  display \<open>{"now": ..., **data}\<close> the entries of \<open>data\<close> come later and win.
\<close>

datatype jvalue = VNone | VInt int | VStr pstr | VTime struct_time

type_synonym jcontext = "pstr \<rightharpoonup> jvalue"

definition render_data :: "struct_time \<Rightarrow> jcontext option \<Rightarrow> jcontext" where
  "render_data now data =
     [lit ''now'' \<mapsto> VTime now] ++ (case data of None \<Rightarrow> Map.empty | Some d \<Rightarrow> d)"

definition render_jinja_in_string ::
  "(pstr \<Rightarrow> jcontext \<Rightarrow> exn + pstr) \<Rightarrow> struct_time \<Rightarrow> pstr \<Rightarrow> jcontext option \<Rightarrow> exn + pstr" where
  "render_jinja_in_string jinja_env now template_string data =
     jinja_env template_string (render_data now data)"

section \<open>The world of a command\<close>

text \<open>
  A command talks to the presentation service, the drive service, the clock, the file
  system and the terminal. Their states are threaded through the model; the services
  and the template engine themselves are parameters (\<open>collab\<close>).
  \<^item> \<open>service\<close> and \<open>drive\<close> are the states of the two remote services;
  \<^item> \<open>clock\<close> counts the calls of \<open>time.localtime()\<close> so far, and \<open>localtime c k\<close> is
    what the call number \<open>k\<close> returns;
  \<^item> \<open>stdout\<close> and \<open>stderr\<close> collect what \<open>typer.echo\<close> and \<open>print\<close> write. The
    informational lines printed under \<open>--verbose\<close> are not recorded;
  \<^item> \<open>batch_calls\<close> records every \<open>batchUpdate(...).execute()\<close>: the requests of its
    body and whether it returned (\<open>True\<close>) or raised \<open>HttpError\<close> (\<open>False\<close>);
  \<^item> \<open>uploads\<close> records the paths handed to \<open>files().create\<close>.
  A remote call that raises \<open>HttpError\<close> returns \<open>None\<close> (or \<open>False\<close>) in the model.
  \<open>path_exists p\<close> is \<open>Path(p).exists()\<close>, and \<open>media_file_upload p\<close> tells whether
  \<open>MediaFileUpload(p, ...)\<close> can open the file; it raises \<open>OSError\<close> when it cannot.
\<close>

datatype message =
    HttpErrorText
  | SlideDoesNotExist int nat
  | SlideDeleted int
  | ErrorDeletingSlide
  | ProcessingJinja
  | ErrorUpdatingText nat
  | JinjifyComplete nat
  | ProcessingImages
  | ImagePathMissing pstr pstr
  | UploadErrorText
  | UploadFailed pstr
  | ErrorReplacingTextBox nat
  | ErrorParsingResponse
  | ImagifyComplete nat

record response =
  replies :: "json list option"

record ('svc, 'drv) world =
  service :: 'svc
  drive :: 'drv
  clock :: nat
  stdout :: "message list"
  stderr :: "message list"
  batch_calls :: "(request list \<times> bool) list"
  uploads :: "pstr list"

record ('svc, 'drv) collab =
  localtime :: "nat \<Rightarrow> struct_time"
  jinja_env :: "pstr \<Rightarrow> jcontext \<Rightarrow> exn + pstr"
  presentations_get :: "'svc \<Rightarrow> presentation option"
  batchUpdate :: "'svc \<Rightarrow> request list \<Rightarrow> response option \<times> 'svc"
  path_exists :: "pstr \<Rightarrow> bool"
  media_file_upload :: "pstr \<Rightarrow> bool"
  files_create :: "'drv \<Rightarrow> pstr \<Rightarrow> pstr option option \<times> 'drv"
  permissions_create :: "'drv \<Rightarrow> pstr option \<Rightarrow> bool \<times> 'drv"

definition echo :: "message \<Rightarrow> ('svc, 'drv) world \<Rightarrow> ('svc, 'drv) world" where
  "echo m w = w\<lparr>stdout := stdout w @ [m]\<rparr>"

definition echo_err :: "message \<Rightarrow> ('svc, 'drv) world \<Rightarrow> ('svc, 'drv) world" where
  "echo_err m w = w\<lparr>stderr := stderr w @ [m]\<rparr>"

text \<open>The exit status of the process: 0 on return, the code of \<open>typer.Exit\<close>, 1 for any
  other exception that reaches the top.\<close>

definition exit_status :: "exn option \<Rightarrow> nat" where
  "exit_status r = (case r of None \<Rightarrow> 0 | Some (Exit code) \<Rightarrow> code | Some _ \<Rightarrow> 1)"

text \<open>
  \<open>get_presentation_slides\<close>: \<open>HttpError\<close> is caught, printed and turned into \<open>None\<close>;
  \<open>presentation.get("slides")\<close> may be \<open>None\<close>, and then \<open>len(slides)\<close> under
  \<open>verbose\<close> raises \<open>TypeError\<close>.
\<close>

definition get_presentation_slides ::
  "('svc, 'drv) collab \<Rightarrow> bool \<Rightarrow> ('svc, 'drv) world \<Rightarrow>
   (exn + slide list option) \<times> ('svc, 'drv) world" where
  "get_presentation_slides c verbose w =
     (case presentations_get c (service w) of
        None \<Rightarrow> (Inr None, echo_err HttpErrorText w)
      | Some p \<Rightarrow>
         (case pres_slides p of
            None \<Rightarrow> if verbose then (Inl TypeError, w) else (Inr None, w)
          | Some ss \<Rightarrow> (Inr (Some ss), w)))"

text \<open>\<open>service.presentations().batchUpdate(presentationId=..., body={"requests": reqs}).execute()\<close>\<close>

definition batch_update ::
  "('svc, 'drv) collab \<Rightarrow> request list \<Rightarrow> ('svc, 'drv) world \<Rightarrow>
   response option \<times> ('svc, 'drv) world" where
  "batch_update c reqs w =
     (case batchUpdate c (service w) reqs of
        (r, s') \<Rightarrow> (r, w\<lparr>service := s', batch_calls := batch_calls w @ [(reqs, r \<noteq> None)]\<rparr>))"

definition delete_slide_by_id ::
  "('svc, 'drv) collab \<Rightarrow> pstr \<Rightarrow> ('svc, 'drv) world \<Rightarrow> response option \<times> ('svc, 'drv) world" where
  "delete_slide_by_id c slide_id w = batch_update c [DeleteObject (Some slide_id)] w"

text \<open>
  The call \<open>jinja_utils.render_jinja_in_string(jinja_env, template, data)\<close> as a command
  makes it: it reads the clock once.
\<close>

definition render_call ::
  "('svc, 'drv) collab \<Rightarrow> pstr \<Rightarrow> jcontext \<Rightarrow> ('svc, 'drv) world \<Rightarrow>
   (exn + pstr) \<times> ('svc, 'drv) world" where
  "render_call c template_string data w =
     (render_jinja_in_string (jinja_env c) (localtime c (clock w)) template_string (Some data),
      w\<lparr>clock := Suc (clock w)\<rparr>)"

section \<open>cli: delete-slide\<close>

text \<open>
  \<open>get_slides_service\<close> returns the object built by \<open>googleapiclient\<close>, which is truthy,
  so the branch \<open>if not service\<close> is not taken. \<open>if not slides\<close> holds for \<open>None\<close> and for
  the empty list.
\<close>

definition delete_slide ::
  "('svc, 'drv) collab \<Rightarrow> bool \<Rightarrow> int \<Rightarrow> ('svc, 'drv) world \<Rightarrow>
   exn option \<times> ('svc, 'drv) world" where
  "delete_slide c verbose slide_number w =
     (case get_presentation_slides c verbose w of
        (Inl e, w1) \<Rightarrow> (Some e, w1)
      | (Inr None, w1) \<Rightarrow> (Some (Exit 1), w1)
      | (Inr (Some slides), w1) \<Rightarrow>
         if slides = [] then (Some (Exit 1), w1)
         else
           (case get_slide_id_by_index slides slide_number of
              None \<Rightarrow>
                (Some (Exit 1),
                 echo_err (SlideDoesNotExist slide_number (length slides)) w1)
            | Some slide_to_delete_id \<Rightarrow>
                (case delete_slide_by_id c slide_to_delete_id w1 of
                   (None, w2) \<Rightarrow> (Some (Exit 1), echo_err ErrorDeletingSlide w2)
                 | (Some resp, w2) \<Rightarrow> (None, echo (SlideDeleted slide_number) w2))))"

section \<open>cli: jinjify\<close>

text \<open>The list comprehension that builds \<open>parsed_texts\<close>.\<close>

fun parse_texts :: "page_element list \<Rightarrow> pstr option \<Rightarrow> exn + text_record list" where
  "parse_texts [] slide_id = Inr []"
| "parse_texts (el # els) slide_id =
     (case gslides_element_to_text el slide_id of Inl e \<Rightarrow> Inl e
      | Inr r \<Rightarrow>
         (case parse_texts els slide_id of Inl e \<Rightarrow> Inl e | Inr rs \<Rightarrow> Inr (r # rs)))"

text \<open>The loop \<open>for text_info in parsed_texts\<close>, with \<open>update_requests\<close> as accumulator.\<close>

fun jinjify_texts ::
  "('svc, 'drv) collab \<Rightarrow> jcontext \<Rightarrow> text_record list \<Rightarrow> request list \<Rightarrow>
   ('svc, 'drv) world \<Rightarrow> (exn + request list) \<times> ('svc, 'drv) world" where
  "jinjify_texts c data [] update_requests w = (Inr update_requests, w)"
| "jinjify_texts c data (text_info # rest) update_requests w =
     (case render_call c (rec_text text_info) data w of
        (Inl e, w1) \<Rightarrow> (Inl e, w1)
      | (Inr rendered, w1) \<Rightarrow>
         if rendered \<noteq> rec_text text_info
         then jinjify_texts c data rest
                (update_requests @
                 [text_update_to_gslides_request
                    \<lparr>original_text = rec_text text_info, rendered_text = rendered,
                     ch_page_object_id = page_object_id text_info,
                     ch_object_id = object_id text_info\<rparr>]) w1
         else jinjify_texts c data rest update_requests w1)"

text \<open>
  The loop \<open>for i, slide in enumerate(slides)\<close>, with \<open>total_changes_made\<close> as
  accumulator. An \<open>HttpError\<close> of the batch update is caught and reported, and the loop
  goes on; the total grows only after a call that returned.
\<close>

fun jinjify_slides ::
  "('svc, 'drv) collab \<Rightarrow> jcontext \<Rightarrow> nat \<Rightarrow> slide list \<Rightarrow> nat \<Rightarrow>
   ('svc, 'drv) world \<Rightarrow> (exn + nat) \<times> ('svc, 'drv) world" where
  "jinjify_slides c data i [] total_changes_made w = (Inr total_changes_made, w)"
| "jinjify_slides c data i (slide # rest) total_changes_made w =
     (let text_elements = get_text_elements_from_slide slide in
      if text_elements = [] then jinjify_slides c data (Suc i) rest total_changes_made w
      else
        (case parse_texts text_elements (slide_objectId slide) of
           Inl e \<Rightarrow> (Inl e, w)
         | Inr parsed_texts \<Rightarrow>
            (case jinjify_texts c data parsed_texts [] w of
               (Inl e, w1) \<Rightarrow> (Inl e, w1)
             | (Inr update_requests, w1) \<Rightarrow>
                if update_requests \<noteq> [] then
                  (case batch_update c update_requests w1 of
                     (None, w2) \<Rightarrow>
                       jinjify_slides c data (Suc i) rest total_changes_made
                         (echo_err (ErrorUpdatingText (Suc i)) w2)
                   | (Some resp, w2) \<Rightarrow>
                       jinjify_slides c data (Suc i) rest
                         (total_changes_made + length update_requests) w2)
                else jinjify_slides c data (Suc i) rest total_changes_made w1)))"

definition jinjify ::
  "('svc, 'drv) collab \<Rightarrow> bool \<Rightarrow> jcontext \<Rightarrow> ('svc, 'drv) world \<Rightarrow>
   exn option \<times> ('svc, 'drv) world" where
  "jinjify c verbose data w =
     (case get_presentation_slides c verbose w of
        (Inl e, w1) \<Rightarrow> (Some e, w1)
      | (Inr None, w1) \<Rightarrow> (Some (Exit 1), w1)
      | (Inr (Some slides), w1) \<Rightarrow>
         if slides = [] then (Some (Exit 1), w1)
         else
           (case jinjify_slides c data 0 slides 0 (echo ProcessingJinja w1) of
              (Inl e, w2) \<Rightarrow> (Some e, w2)
            | (Inr total_changes_made, w2) \<Rightarrow>
                (None, echo (JinjifyComplete total_changes_made) w2)))"

section \<open>drive\_utils\<close>

text \<open>
  \<open>upload_image_to_drive\<close>: \<open>MediaFileUpload\<close> opens the file, then \<open>files().create\<close>
  and \<open>permissions().create\<close> are called. An \<open>HttpError\<close> of either call is caught,
  printed and turned into \<open>None\<close>; the \<open>OSError\<close> of \<open>MediaFileUpload\<close> is not caught.
  The result of the first call is \<open>img_file.get("id")\<close>.
\<close>

definition upload_image_to_drive ::
  "('svc, 'drv) collab \<Rightarrow> pstr \<Rightarrow> ('svc, 'drv) world \<Rightarrow>
   (exn + pstr option) \<times> ('svc, 'drv) world" where
  "upload_image_to_drive c image_path w =
     (if \<not> media_file_upload c image_path then (Inl OSError, w)
      else
        (case files_create c (drive w) image_path of
           (None, d1) \<Rightarrow>
             (Inr None, echo_err UploadErrorText
                      (w\<lparr>drive := d1, uploads := uploads w @ [image_path]\<rparr>))
         | (Some img_file_id, d1) \<Rightarrow>
             (case permissions_create c d1 img_file_id of
                (False, d2) \<Rightarrow>
                  (Inr None, echo_err UploadErrorText
                           (w\<lparr>drive := d2, uploads := uploads w @ [image_path]\<rparr>))
              | (True, d2) \<Rightarrow>
                  (Inr img_file_id, w\<lparr>drive := d2, uploads := uploads w @ [image_path]\<rparr>))))"

section \<open>cli: imagify\<close>

text \<open>
  \<open>re.fullmatch(r"!\[image\]\((.*)\)", s)\<close> and its group 1. The whole of \<open>s\<close> has to
  match: \<open>s\<close> starts with the nine characters \<open>![image](\<close>, ends with \<open>)\<close>, and what
  lies between them is matched by \<open>.*\<close>, that is, holds no line feed (code point 10).
  \<open>None\<close> is no match.
\<close>

definition image_match :: "pstr \<Rightarrow> pstr option" where
  "image_match s =
     (let rest = drop 9 s in
      if prefix (lit ''![image]('') s \<and> rest \<noteq> [] \<and> last rest = 41 \<and> 10 \<notin> set (butlast rest)
      then Some (butlast rest) else None)"

definition jinja_data_for_image_path :: "nat \<Rightarrow> pstr option \<Rightarrow> jcontext" where
  "jinja_data_for_image_path i slide_id =
     [lit ''slide_index'' \<mapsto> VInt (int i),
      lit ''slide_id'' \<mapsto> (case slide_id of None \<Rightarrow> VNone | Some sid \<Rightarrow> VStr sid)]"

text \<open>
  The first part of the body of \<open>for text_element_shape in text_elements\<close>: render the
  text, match it, and resolve the path. The result is \<open>None\<close> when \<open>image_match\<close> is
  \<open>None\<close> (the element is left alone), and the pair of \<open>image_path\<close> and
  \<open>rendered_text_content\<close> otherwise.
\<close>

definition resolve_image_path ::
  "('svc, 'drv) collab \<Rightarrow> nat \<Rightarrow> pstr option \<Rightarrow> pstr \<Rightarrow> ('svc, 'drv) world \<Rightarrow>
   (exn + (pstr \<times> pstr) option) \<times> ('svc, 'drv) world" where
  "resolve_image_path c i slide_id original w =
     (case render_call c original (jinja_data_for_image_path i slide_id) w of
        (Inl e, w1) \<Rightarrow> (Inl e, w1)
      | (Inr rendered_text_content, w1) \<Rightarrow>
         (case image_match (strip rendered_text_content) of
            None \<Rightarrow> (Inr None, w1)
          | Some image_path_template \<Rightarrow>
             if contains (lit ''{{'') image_path_template \<and>
                contains (lit ''}}'') image_path_template
             then
               (case render_call c image_path_template
                       (jinja_data_for_image_path i slide_id) w1 of
                  (Inl e, w2) \<Rightarrow> (Inl e, w2)
                | (Inr image_path, w2) \<Rightarrow>
                    (Inr (Some (strip image_path, rendered_text_content)), w2))
             else (Inr (Some (strip image_path_template, rendered_text_content)), w1)))"

text \<open>
  The body of the loop over the text elements of slide number \<open>i\<close>, with
  \<open>total_images_replaced\<close> as accumulator. \<open>if not drive_image_id\<close> holds for \<open>None\<close> and
  for the empty string; an exception of the upload other than \<open>HttpError\<close> ends the
  command. \<open>response.get("replies")[0].get("createImage")\<close> raises
  \<open>TypeError\<close> without replies and \<open>IndexError\<close> on an empty list, both caught, and
  \<open>AttributeError\<close> when the first reply is no dictionary.
\<close>

definition imagify_element ::
  "('svc, 'drv) collab \<Rightarrow> nat \<Rightarrow> pstr option \<Rightarrow> page_element \<Rightarrow> nat \<Rightarrow>
   ('svc, 'drv) world \<Rightarrow> (exn + nat) \<times> ('svc, 'drv) world" where
  "imagify_element c i slide_id el total_images_replaced w =
     (case gslides_element_to_text el slide_id of
        Inl e \<Rightarrow> (Inl e, w)
      | Inr parsed_text_info \<Rightarrow>
         (case resolve_image_path c i slide_id (rec_text parsed_text_info) w of
            (Inl e, w1) \<Rightarrow> (Inl e, w1)
          | (Inr None, w1) \<Rightarrow> (Inr total_images_replaced, w1)
          | (Inr (Some (image_path, rendered_text_content)), w1) \<Rightarrow>
             if \<not> path_exists c image_path
             then (Inr total_images_replaced,
                   echo_err (ImagePathMissing image_path rendered_text_content) w1)
             else
               (case upload_image_to_drive c image_path w1 of
                  (Inl e, w2) \<Rightarrow> (Inl e, w2)
                | (Inr None, w2) \<Rightarrow>
                    (Inr total_images_replaced, echo_err (UploadFailed image_path) w2)
                | (Inr (Some drive_image_id), w2) \<Rightarrow>
                    if drive_image_id = []
                    then (Inr total_images_replaced, echo_err (UploadFailed image_path) w2)
                    else
                      (case batch_update c
                              [CreateImage
                                 \<lparr>url = lit ''https://drive.google.com/uc?id='' @ drive_image_id,
                                  ep_pageObjectId = slide_id, ep_size = el_size el,
                                  ep_transform = el_transform el\<rparr>,
                               DeleteObject (el_objectId el)] w2 of
                         (None, w3) \<Rightarrow>
                           (Inr total_images_replaced,
                            echo_err (ErrorReplacingTextBox (Suc i)) w3)
                       | (Some resp, w3) \<Rightarrow>
                           (case replies resp of
                              None \<Rightarrow>
                                (Inr total_images_replaced, echo_err ErrorParsingResponse w3)
                            | Some [] \<Rightarrow>
                                (Inr total_images_replaced, echo_err ErrorParsingResponse w3)
                            | Some (JObj reply # _) \<Rightarrow> (Inr (Suc total_images_replaced), w3)
                            | Some (_ # _) \<Rightarrow> (Inl AttributeError, w3))))))"

fun imagify_elements ::
  "('svc, 'drv) collab \<Rightarrow> nat \<Rightarrow> pstr option \<Rightarrow> page_element list \<Rightarrow> nat \<Rightarrow>
   ('svc, 'drv) world \<Rightarrow> (exn + nat) \<times> ('svc, 'drv) world" where
  "imagify_elements c i slide_id [] total_images_replaced w = (Inr total_images_replaced, w)"
| "imagify_elements c i slide_id (el # els) total_images_replaced w =
     (case imagify_element c i slide_id el total_images_replaced w of
        (Inl e, w1) \<Rightarrow> (Inl e, w1)
      | (Inr total', w1) \<Rightarrow> imagify_elements c i slide_id els total' w1)"

text \<open>
  The loop over the slides. \<open>if not text_elements and verbose: continue\<close> skips a
  slide whose inner loop would run over the empty list anyway.
\<close>

fun imagify_slides ::
  "('svc, 'drv) collab \<Rightarrow> nat \<Rightarrow> slide list \<Rightarrow> nat \<Rightarrow>
   ('svc, 'drv) world \<Rightarrow> (exn + nat) \<times> ('svc, 'drv) world" where
  "imagify_slides c i [] total_images_replaced w = (Inr total_images_replaced, w)"
| "imagify_slides c i (slide # rest) total_images_replaced w =
     (case imagify_elements c i (slide_objectId slide) (get_text_elements_from_slide slide)
             total_images_replaced w of
        (Inl e, w1) \<Rightarrow> (Inl e, w1)
      | (Inr total', w1) \<Rightarrow> imagify_slides c (Suc i) rest total' w1)"

definition imagify ::
  "('svc, 'drv) collab \<Rightarrow> bool \<Rightarrow> ('svc, 'drv) world \<Rightarrow> exn option \<times> ('svc, 'drv) world" where
  "imagify c verbose w =
     (case get_presentation_slides c verbose w of
        (Inl e, w1) \<Rightarrow> (Some e, w1)
      | (Inr None, w1) \<Rightarrow> (Some (Exit 1), w1)
      | (Inr (Some slides), w1) \<Rightarrow>
         if slides = [] then (Some (Exit 1), w1)
         else
           (case imagify_slides c 0 slides 0 (echo ProcessingImages w1) of
              (Inl e, w2) \<Rightarrow> (Some e, w2)
            | (Inr total_images_replaced, w2) \<Rightarrow>
                (None, echo (ImagifyComplete total_images_replaced) w2)))"

section \<open>Sample inputs\<close>

text \<open>Concrete values on which the properties below are instantiated.\<close>

definition day :: "int \<Rightarrow> struct_time" where
  "day n = \<lparr>tm_year = 2024, tm_mon = 5, tm_mday = n, tm_hour = 0, tm_min = 0, tm_sec = 0,
            tm_wday = 0, tm_yday = 0, tm_isdst = 0\<rparr>"

definition slide_with_id :: "string \<Rightarrow> slide" where
  "slide_with_id s = \<lparr>slide_objectId = Some (lit s), pageElements = None\<rparr>"

text \<open>A template engine that shows which value the name \<open>now\<close> has in its context.\<close>

definition now_reader :: "pstr \<Rightarrow> jcontext \<Rightarrow> exn + pstr" where
  "now_reader template_string ctx =
     (case ctx (lit ''now'') of
        Some (VStr s) \<Rightarrow> Inr (template_string @ s)
      | Some (VTime t) \<Rightarrow> Inr (template_string @ format_d (tm_mday t))
      | _ \<Rightarrow> Inl TemplateError)"

text \<open>
  The textual content of a text-run sub-element as the specification words it: the
  content of its text run, and the empty string without one.
\<close>

definition run_text :: "text_element \<Rightarrow> pstr" where
  "run_text text_el =
     (case textRun text_el of None \<Rightarrow> []
      | Some run \<Rightarrow> (case content run of None \<Rightarrow> [] | Some c \<Rightarrow> c))"

definition text_box :: "string \<Rightarrow> pstr list \<Rightarrow> page_element" where
  "text_box oid runs =
     \<lparr>el_objectId = Some (lit oid), el_size = Some (JInt 1), el_transform = Some (JInt 2),
      el_shape = Some \<lparr>shapeType = Some (lit ''TEXT_BOX''),
        shape_text = Some \<lparr>textElements = Some
          (\<lparr>textRun = None\<rparr> # map (\<lambda>r. \<lparr>textRun = Some \<lparr>content = Some r\<rparr>\<rparr>) runs)\<rparr>\<rparr>\<rparr>"

definition empty_text_box :: "string \<Rightarrow> page_element" where
  "empty_text_box oid =
     \<lparr>el_objectId = Some (lit oid), el_size = None, el_transform = None,
      el_shape = Some \<lparr>shapeType = Some (lit ''TEXT_BOX''), shape_text = None\<rparr>\<rparr>"

text \<open>
  Modelled from the spec: the presentation service, which is not part of the
  repository. Its state is the deck. A replace-all-text request replaces "every
  occurrence of \<open>original_text\<close> anywhere on that slide" (section 4.3), here in the
  content of every text run of every page element of the slides named in
  \<open>pageObjectIds\<close>; a delete-object request removes the slide or the page element with
  that id; the requests of one call are applied in order, all or nothing (section 6).
  This sample service refuses duplicate-object and create-image requests.
\<close>

definition replace_in_element :: "pstr \<Rightarrow> pstr \<Rightarrow> page_element \<Rightarrow> page_element" where
  "replace_in_element old new el =
     el\<lparr>el_shape := map_option (\<lambda>sh.
          sh\<lparr>shape_text := map_option (\<lambda>tc.
               tc\<lparr>textElements := map_option (map (\<lambda>te.
                    te\<lparr>textRun := map_option (\<lambda>run.
                         run\<lparr>content := map_option (\<lambda>t. str_replace t old new) (content run)\<rparr>)
                       (textRun te)\<rparr>))
                  (textElements tc)\<rparr>)
             (shape_text sh)\<rparr>)
        (el_shape el)\<rparr>"

fun deck_apply :: "request \<Rightarrow> slide list \<Rightarrow> slide list option" where
  "deck_apply (ReplaceAllText r) deck =
     Some (map (\<lambda>s. if slide_objectId s \<in> set (pageObjectIds r)
                      then s\<lparr>pageElements :=
                             map_option (map (replace_in_element (containsText_text r)
                                                 (replaceText r)))
                               (pageElements s)\<rparr>
                      else s) deck)"
| "deck_apply (DeleteObject oid) deck =
     Some (map (\<lambda>s. s\<lparr>pageElements :=
                        map_option (filter (\<lambda>el. el_objectId el \<noteq> oid)) (pageElements s)\<rparr>)
             (filter (\<lambda>s. slide_objectId s \<noteq> oid) deck))"
| "deck_apply (DuplicateObject oid) deck = None"
| "deck_apply (CreateImage ci) deck = None"

fun deck_batch :: "slide list \<Rightarrow> request list \<Rightarrow> slide list option" where
  "deck_batch deck [] = Some deck"
| "deck_batch deck (r # rs) =
     (case deck_apply r deck of None \<Rightarrow> None | Some deck' \<Rightarrow> deck_batch deck' rs)"

definition deck_batchUpdate :: "slide list \<Rightarrow> request list \<Rightarrow> response option \<times> slide list" where
  "deck_batchUpdate deck reqs =
     (case deck_batch deck reqs of
        None \<Rightarrow> (None, deck)
      | Some deck' \<Rightarrow> (Some \<lparr>replies = Some (map (\<lambda>r. JObj []) reqs)\<rparr>, deck'))"

text \<open>
  Sample collaborators around that service: a template engine and a file system given
  as arguments, a clock that shows day \<open>k + 1\<close> at its call number \<open>k\<close>, and a drive that
  stores every file under the id \<open>img\<close>.
\<close>

definition sample_collab ::
  "(pstr \<Rightarrow> jcontext \<Rightarrow> exn + pstr) \<Rightarrow> (pstr \<Rightarrow> bool) \<Rightarrow> (slide list, pstr list) collab" where
  "sample_collab engine files =
     \<lparr>localtime = (\<lambda>k. day (int k + 1)),
      jinja_env = engine,
      presentations_get = (\<lambda>deck. Some \<lparr>pres_slides = Some deck\<rparr>),
      batchUpdate = deck_batchUpdate,
      path_exists = files,
      media_file_upload = files,
      files_create = (\<lambda>d p. (Some (Some (lit ''img'')), d @ [p])),
      permissions_create = (\<lambda>d i. (True, d))\<rparr>"

definition initial_world :: "slide list \<Rightarrow> (slide list, pstr list) world" where
  "initial_world deck =
     \<lparr>service = deck, drive = [], clock = 0, stdout = [], stderr = [], batch_calls = [],
      uploads = []\<rparr>"

definition plain_engine :: "pstr \<Rightarrow> jcontext \<Rightarrow> exn + pstr" where
  "plain_engine template_string ctx = Inr template_string"

definition no_files :: "pstr \<Rightarrow> bool" where
  "no_files p = False"

definition three_slides :: "slide list" where
  "three_slides = [slide_with_id ''s1'', slide_with_id ''s2'', slide_with_id ''s3'']"

chapter \<open>Properties\<close>

section \<open>The ordinal of the day\<close>

lemma tsnrhtdd_slices:
  "slice_from_step (lit ''tsnrhtdd'') 0 4 = lit ''th''"
  "slice_from_step (lit ''tsnrhtdd'') (Suc 0) 4 = lit ''st''"
  "slice_from_step (lit ''tsnrhtdd'') 2 4 = lit ''nd''"
  "slice_from_step (lit ''tsnrhtdd'') 3 4 = lit ''rd''"
  by (simp_all add: slice_from_step_def lit_def)

lemma mod10_lt4:
  "(n::int) mod 10 < 4 \<Longrightarrow> n mod 10 = 0 \<or> n mod 10 = 1 \<or> n mod 10 = 2 \<or> n mod 10 = 3"
  by linarith

lemma ordinal_general:
  "ordinal n = format_d n @
     (if n div 10 mod 10 = 1 then lit ''th''
      else if n mod 10 = 1 then lit ''st''
      else if n mod 10 = 2 then lit ''nd''
      else if n mod 10 = 3 then lit ''rd''
      else lit ''th'')"
proof (cases "n div 10 mod 10 \<noteq> 1 \<and> n mod 10 < 4")
  case True
  then have k: "(of_bool_int (n div 10 mod 10 \<noteq> 1) * of_bool_int (n mod 10 < 4) * n) mod 10 = n mod 10"
    by (simp add: of_bool_int_def)
  from True mod10_lt4 have "n mod 10 = 0 \<or> n mod 10 = 1 \<or> n mod 10 = 2 \<or> n mod 10 = 3"
    by blast
  with True show ?thesis
    unfolding ordinal_def k by (auto simp: tsnrhtdd_slices)
next
  case False
  then have k: "(of_bool_int (n div 10 mod 10 \<noteq> 1) * of_bool_int (n mod 10 < 4) * n) mod 10 = 0"
    by (auto simp: of_bool_int_def)
  from False show ?thesis
    unfolding ordinal_def k by (auto simp: tsnrhtdd_slices)
qed

lemma tens_digit_day:
  assumes "1 \<le> (n::int)" "n \<le> 31"
  shows "n div 10 mod 10 = 1 \<longleftrightarrow> 10 \<le> n \<and> n \<le> 19"
proof -
  have a: "n div 10 = 1 \<longleftrightarrow> 10 \<le> n \<and> n \<le> 19" by linarith
  have "0 \<le> n div 10 \<and> n div 10 < 10" using assms by linarith
  then have "n div 10 mod 10 = n div 10" by simp
  with a show ?thesis by simp
qed

lemma teen_last_digit:
  "10 \<le> n \<Longrightarrow> n \<le> 19 \<Longrightarrow> (n::int) mod 10 = 1 \<longleftrightarrow> n = 11"
  "10 \<le> n \<Longrightarrow> n \<le> 19 \<Longrightarrow> (n::int) mod 10 = 2 \<longleftrightarrow> n = 12"
  "10 \<le> n \<Longrightarrow> n \<le> 19 \<Longrightarrow> (n::int) mod 10 = 3 \<longleftrightarrow> n = 13"
  by presburger+

lemma ordinal_day:
  assumes "1 \<le> n" "n \<le> 31"
  shows "ordinal n = format_d n @ ordinal_suffix n"
proof (cases "10 \<le> n \<and> n \<le> 19")
  case True
  then have "n div 10 mod 10 = 1" using tens_digit_day [OF assms] by simp
  moreover have "ordinal_suffix n = lit ''th''"
    using True teen_last_digit [of n] by (simp add: ordinal_suffix_def)
  ultimately show ?thesis by (simp add: ordinal_general)
next
  case False
  then have t: "n div 10 mod 10 \<noteq> 1" using tens_digit_day [OF assms] by simp
  from False have "n \<noteq> 11" "n \<noteq> 12" "n \<noteq> 13" by auto
  with t show ?thesis by (simp add: ordinal_general ordinal_suffix_def)
qed

lemma ordinal_examples:
  "map ordinal [1, 2, 3, 4, 11, 12, 13, 21, 22, 23] =
   map lit [''1st'', ''2nd'', ''3rd'', ''4th'', ''11th'', ''12th'', ''13th'', ''21st'',
            ''22nd'', ''23rd'']"
  by (simp add: ordinal_general format_d_def digits.simps lit_def)

text \<open>
  Claim C2. For a day of the month between 1 and 31, \<open>strftime_with_ordinal\<close> hands
  to \<open>time.strftime\<close> the format in which every \<open>%O\<close> is replaced by the day in
  decimal followed by its suffix: \<open>st\<close>, \<open>nd\<close>, \<open>rd\<close> when the last digit is 1, 2, 3
  and the day is not 11, 12, 13, and \<open>th\<close> otherwise. The days 1, 2, 3, 4, 11, 12, 13, 21,
  22, 23 give 1st, 2nd, 3rd, 4th, 11th, 12th, 13th, 21st, 22nd, 23rd.
\<close>

theorem strftime_with_ordinal_day:
  assumes "1 \<le> tm_mday t" and "tm_mday t \<le> 31"
  shows "strftime_with_ordinal strftime now fmt (Some t) =
           strftime (str_replace fmt (lit ''%O'')
                       (format_d (tm_mday t) @ ordinal_suffix (tm_mday t))) t
       \<and> strftime_with_ordinal strftime t fmt None =
           strftime (str_replace fmt (lit ''%O'')
                       (format_d (tm_mday t) @ ordinal_suffix (tm_mday t))) t
       \<and> map ordinal [1, 2, 3, 4, 11, 12, 13, 21, 22, 23] =
           map lit [''1st'', ''2nd'', ''3rd'', ''4th'', ''11th'', ''12th'', ''13th'',
                    ''21st'', ''22nd'', ''23rd'']"
  using ordinal_day [OF assms] ordinal_examples
  by (simp add: strftime_with_ordinal_def)


theorem strftime_with_ordinal_day_witness:
  "1 \<le> tm_mday (day 22) \<and> tm_mday (day 22) \<le> 31 \<and>
   strftime_with_ordinal (\<lambda>fmt t. fmt) (day 1) (lit ''%B %O'') (Some (day 22)) = lit ''%B 22nd''"
  using strftime_with_ordinal_day [of "day 22" "\<lambda>fmt t. fmt" "day 1" "lit ''%B %O''"]
  by (simp add: day_def lit_def format_d_def digits.simps ordinal_suffix_def)

section \<open>Slide numbers\<close>

text \<open>
  Claim C3. \<open>get_slide_id_by_index\<close> is 1-based: for an index between 1 and the number
  of slides it returns the \<open>objectId\<close> of \<open>slides[index - 1]\<close>, and for every other
  index (0, negative, beyond the end) it returns \<open>None\<close>.
\<close>

theorem get_slide_id_by_index_one_based:
  "(1 \<le> index \<and> index \<le> int (length slides) \<longrightarrow>
      get_slide_id_by_index slides index = slide_objectId (slides ! nat (index - 1)))
   \<and> (\<not> (1 \<le> index \<and> index \<le> int (length slides)) \<longrightarrow>
      get_slide_id_by_index slides index = None)"
  by (auto simp: get_slide_id_by_index_def)


theorem get_slide_id_by_index_one_based_witness:
  "get_slide_id_by_index [slide_with_id ''s1'', slide_with_id ''s2'', slide_with_id ''s3''] 1
     = Some (lit ''s1'')
   \<and> get_slide_id_by_index [slide_with_id ''s1'', slide_with_id ''s2'', slide_with_id ''s3''] 0
     = None
   \<and> get_slide_id_by_index [slide_with_id ''s1'', slide_with_id ''s2'', slide_with_id ''s3''] 4
     = None
   \<and> get_slide_id_by_index [slide_with_id ''s1'', slide_with_id ''s2'', slide_with_id ''s3''] (- 1)
     = None"
  using
    get_slide_id_by_index_one_based
      [of 1 "[slide_with_id ''s1'', slide_with_id ''s2'', slide_with_id ''s3'']"]
    get_slide_id_by_index_one_based
      [of 0 "[slide_with_id ''s1'', slide_with_id ''s2'', slide_with_id ''s3'']"]
    get_slide_id_by_index_one_based
      [of 4 "[slide_with_id ''s1'', slide_with_id ''s2'', slide_with_id ''s3'']"]
    get_slide_id_by_index_one_based
      [of "- 1" "[slide_with_id ''s1'', slide_with_id ''s2'', slide_with_id ''s3'']"]
  by (simp add: slide_with_id_def)

section \<open>The text-replace request\<close>

text \<open>
  Claim C8. The request built from a change is a \<open>replaceAllText\<close> whose
  \<open>containsText\<close> is the original text with \<open>matchCase\<close> true, whose \<open>replaceText\<close> is
  the rendered text, and whose \<open>pageObjectIds\<close> is the one-element list holding the id of
  the slide.
\<close>

theorem text_update_request_fields:
  "\<exists>r. text_update_to_gslides_request ch = ReplaceAllText r
     \<and> containsText_text r = original_text ch \<and> containsText_matchCase r
     \<and> replaceText r = rendered_text ch \<and> pageObjectIds r = [ch_page_object_id ch]"
  by (simp add: text_update_to_gslides_request_def)

section \<open>Text records\<close>

lemma strip_prefix_suffix:
  "dropWhile is_space s = strip s @ rev (takeWhile is_space (rev (dropWhile is_space s)))"
proof -
  let ?a = "dropWhile is_space s"
  have "?a = rev (rev ?a)" by simp
  also have "\<dots> = rev (takeWhile is_space (rev ?a) @ dropWhile is_space (rev ?a))"
    by (simp only: takeWhile_dropWhile_id)
  also have "\<dots> = rev (dropWhile is_space (rev ?a)) @ rev (takeWhile is_space (rev ?a))"
    by (rule rev_append)
  finally show ?thesis by (simp only: strip_def)
qed

lemma strip_no_leading_space: "dropWhile is_space (strip s) = strip s"
proof (cases "strip s")
  case Nil
  then show ?thesis by simp
next
  case (Cons x xs)
  then obtain ys where eq: "dropWhile is_space s = x # ys"
    using strip_prefix_suffix [of s] by (metis append_Cons)
  then have "dropWhile is_space s \<noteq> []" by simp
  then have "\<not> is_space (hd (dropWhile is_space s))" by (rule hd_dropWhile)
  with eq have "\<not> is_space x" by simp
  with Cons show ?thesis by simp
qed

lemma strip_idem: "strip (strip s) = strip s"
proof -
  have "rev (dropWhile is_space (rev (strip s))) = strip s"
    by (simp add: strip_def)
  then show ?thesis
    unfolding strip_def [of "strip s"] strip_no_leading_space .
qed

lemma join_contents_concat:
  "\<forall>te\<in>set tes. \<forall>r. textRun te = Some r \<longrightarrow> content r \<noteq> None \<Longrightarrow>
   join_contents tes = Inr (concat (map run_text tes))"
  by (induction tes) (auto simp: text_el_content_def run_text_def split: option.splits)

text \<open>
  Claim C7. For a text-box element, \<open>gslides_element_to_text\<close> returns a record with
  the text \<open>""\<close>, and raises nothing, when the shape has no \<open>text\<close> field. When the
  shape has one (with the keys the function indexes: \<open>textElements\<close>, and \<open>content\<close> in
  every text run), the text is the concatenation, in order, of the contents of the
  text elements, stripped of surrounding whitespace. Every record the function returns
  has a text equal to its own strip.
\<close>

theorem gslides_element_to_text_stripped:
  assumes "el_shape el = Some sh"
  shows "(shape_text sh = None \<longrightarrow>
            gslides_element_to_text el pid =
              Inr \<lparr>object_id = el_objectId el, page_object_id = pid, rec_text = []\<rparr>)
       \<and> (\<forall>tc tes. shape_text sh = Some tc \<and> textElements tc = Some tes \<and>
              (\<forall>te\<in>set tes. \<forall>r. textRun te = Some r \<longrightarrow> content r \<noteq> None) \<longrightarrow>
            gslides_element_to_text el pid =
              Inr \<lparr>object_id = el_objectId el, page_object_id = pid,
                   rec_text = strip (concat (map run_text tes))\<rparr>)
       \<and> (\<forall>r. gslides_element_to_text el pid = Inr r \<longrightarrow> strip (rec_text r) = rec_text r)"
proof (intro conjI allI impI)
  assume "shape_text sh = None"
  with assms show "gslides_element_to_text el pid =
      Inr \<lparr>object_id = el_objectId el, page_object_id = pid, rec_text = []\<rparr>"
    by (simp add: gslides_element_to_text_def)
next
  fix tc tes
  assume h: "shape_text sh = Some tc \<and> textElements tc = Some tes \<and>
              (\<forall>te\<in>set tes. \<forall>r. textRun te = Some r \<longrightarrow> content r \<noteq> None)"
  then have "join_contents tes = Inr (concat (map run_text tes))"
    by (simp add: join_contents_concat)
  with assms h show "gslides_element_to_text el pid =
      Inr \<lparr>object_id = el_objectId el, page_object_id = pid,
           rec_text = strip (concat (map run_text tes))\<rparr>"
    by (simp add: gslides_element_to_text_def)
next
  fix r
  assume "gslides_element_to_text el pid = Inr r"
  then have "rec_text r = [] \<or> (\<exists>t. rec_text r = strip t)"
    by (auto simp: gslides_element_to_text_def split: option.splits sum.splits)
  then show "strip (rec_text r) = rec_text r"
    by (auto simp: strip_idem) (simp add: strip_def)
qed

theorem gslides_element_to_text_stripped_witness:
  "gslides_element_to_text (empty_text_box ''e1'') (Some (lit ''p1'')) =
     Inr \<lparr>object_id = Some (lit ''e1''), page_object_id = Some (lit ''p1''), rec_text = []\<rparr>
   \<and> gslides_element_to_text (text_box ''e2'' [lit '' Hello '', lit ''world'', [10]])
       (Some (lit ''p1'')) =
     Inr \<lparr>object_id = Some (lit ''e2''), page_object_id = Some (lit ''p1''),
          rec_text = lit ''Hello world''\<rparr>
   \<and> strip (lit ''Hello world'') = lit ''Hello world''"
proof -
  let ?e1 = "empty_text_box ''e1''"
  let ?e2 = "text_box ''e2'' [lit '' Hello '', lit ''world'', [10]]"
  have s1: "el_shape ?e1 = Some \<lparr>shapeType = Some (lit ''TEXT_BOX''), shape_text = None\<rparr>"
    by (simp add: empty_text_box_def)
  have a: "gslides_element_to_text ?e1 (Some (lit ''p1'')) =
     Inr \<lparr>object_id = Some (lit ''e1''), page_object_id = Some (lit ''p1''), rec_text = []\<rparr>"
    using gslides_element_to_text_stripped [OF s1, of "Some (lit ''p1'')"]
    by (simp add: empty_text_box_def)
  have s2: "el_shape ?e2 = Some (the (el_shape ?e2))"
    by (simp add: text_box_def)
  have b: "gslides_element_to_text ?e2 (Some (lit ''p1'')) =
     Inr \<lparr>object_id = Some (lit ''e2''), page_object_id = Some (lit ''p1''),
          rec_text = lit ''Hello world''\<rparr>"
    using gslides_element_to_text_stripped [OF s2, of "Some (lit ''p1'')"]
    by (simp add: text_box_def run_text_def strip_def is_space_def lit_def)
  have "strip (lit ''Hello world'') = lit ''Hello world''"
    using gslides_element_to_text_stripped [OF s2, of "Some (lit ''p1'')"] b
    by simp
  with a b show ?thesis by simp
qed

section \<open>Deleting a slide\<close>

lemma get_presentation_slides_world:
  "get_presentation_slides c verbose w = (r, w1) \<Longrightarrow>
   batch_calls w1 = batch_calls w \<and> service w1 = service w \<and>
   (stderr w1 = stderr w \<or> stderr w1 = stderr w @ [HttpErrorText])"
  by (auto simp: get_presentation_slides_def echo_err_def split: option.splits if_splits)

text \<open>
  Claim C4, as amended. When the deck has been fetched with at least one slide and the
  slide number does not resolve to a slide id, \<open>delete_slide\<close> reports that the slide
  does not exist and ends with \<open>typer.Exit(code=1)\<close> without a batch update. When the
  deck could not be fetched or has no slides, it ends with \<open>typer.Exit(code=1)\<close> without
  a batch update as well, but without that report. Every run that issues no batch update
  ends with a non-zero exit status, and the only batch update a run ever issues is the
  delete request for the id the number resolves to.
\<close>

theorem delete_slide_outcomes:
  "(\<forall>slides w1. get_presentation_slides c verbose w = (Inr (Some slides), w1) \<and> slides \<noteq> [] \<and>
        get_slide_id_by_index slides n = None \<longrightarrow>
        delete_slide c verbose n w =
          (Some (Exit 1), echo_err (SlideDoesNotExist n (length slides)) w1)
        \<and> exit_status (Some (Exit 1)) \<noteq> 0
        \<and> batch_calls w1 = batch_calls w \<and> service w1 = service w)
   \<and> (\<forall>r w1. get_presentation_slides c verbose w = (Inr r, w1) \<and> (r = None \<or> r = Some []) \<longrightarrow>
        delete_slide c verbose n w = (Some (Exit 1), w1)
        \<and> batch_calls w1 = batch_calls w \<and> service w1 = service w
        \<and> (stderr w1 = stderr w \<or> stderr w1 = stderr w @ [HttpErrorText]))
   \<and> (\<forall>r w'. delete_slide c verbose n w = (r, w') \<longrightarrow>
        batch_calls w' = batch_calls w
        \<or> (\<exists>slides sid ok w1.
              get_presentation_slides c verbose w = (Inr (Some slides), w1) \<and>
              get_slide_id_by_index slides n = Some sid \<and>
              batch_calls w' = batch_calls w @ [([DeleteObject (Some sid)], ok)]))
   \<and> (\<forall>r w'. delete_slide c verbose n w = (r, w') \<and> batch_calls w' = batch_calls w \<longrightarrow>
        exit_status r \<noteq> 0)"
proof -
  have a: "\<forall>slides w1. get_presentation_slides c verbose w = (Inr (Some slides), w1) \<and>
        slides \<noteq> [] \<and> get_slide_id_by_index slides n = None \<longrightarrow>
        delete_slide c verbose n w =
          (Some (Exit 1), echo_err (SlideDoesNotExist n (length slides)) w1)
        \<and> exit_status (Some (Exit 1)) \<noteq> 0
        \<and> batch_calls w1 = batch_calls w \<and> service w1 = service w"
  proof (intro allI impI)
    fix slides w1
    assume "get_presentation_slides c verbose w = (Inr (Some slides), w1) \<and> slides \<noteq> [] \<and>
        get_slide_id_by_index slides n = None"
    then show "delete_slide c verbose n w =
          (Some (Exit 1), echo_err (SlideDoesNotExist n (length slides)) w1)
        \<and> exit_status (Some (Exit 1)) \<noteq> 0
        \<and> batch_calls w1 = batch_calls w \<and> service w1 = service w"
      using get_presentation_slides_world [of c verbose w "Inr (Some slides)" w1]
      by (simp add: delete_slide_def exit_status_def)
  qed
  have b: "\<forall>r w1. get_presentation_slides c verbose w = (Inr r, w1) \<and>
        (r = None \<or> r = Some []) \<longrightarrow>
        delete_slide c verbose n w = (Some (Exit 1), w1)
        \<and> batch_calls w1 = batch_calls w \<and> service w1 = service w
        \<and> (stderr w1 = stderr w \<or> stderr w1 = stderr w @ [HttpErrorText])"
  proof (intro allI impI)
    fix r w1
    assume "get_presentation_slides c verbose w = (Inr r, w1) \<and> (r = None \<or> r = Some [])"
    then show "delete_slide c verbose n w = (Some (Exit 1), w1)
        \<and> batch_calls w1 = batch_calls w \<and> service w1 = service w
        \<and> (stderr w1 = stderr w \<or> stderr w1 = stderr w @ [HttpErrorText])"
      using get_presentation_slides_world [of c verbose w "Inr r" w1]
      by (auto simp: delete_slide_def)
  qed
  have c: "\<forall>r w'. delete_slide c verbose n w = (r, w') \<longrightarrow>
        batch_calls w' = batch_calls w
        \<or> (\<exists>slides sid ok w1.
              get_presentation_slides c verbose w = (Inr (Some slides), w1) \<and>
              get_slide_id_by_index slides n = Some sid \<and>
              batch_calls w' = batch_calls w @ [([DeleteObject (Some sid)], ok)])"
    by (auto simp: delete_slide_def delete_slide_by_id_def batch_update_def echo_err_def
        echo_def get_presentation_slides_def
        split: option.splits prod.splits sum.splits if_splits)
  have d: "\<forall>r w'. delete_slide c verbose n w = (r, w') \<and> batch_calls w' = batch_calls w \<longrightarrow>
        exit_status r \<noteq> 0"
    by (auto simp: delete_slide_def delete_slide_by_id_def batch_update_def echo_err_def
        echo_def get_presentation_slides_def exit_status_def
        split: option.splits prod.splits sum.splits if_splits)
  from a b c d show ?thesis by (intro conjI)
qed

theorem delete_slide_outcomes_witness:
  "get_slide_id_by_index three_slides 4 = None
   \<and> delete_slide (sample_collab plain_engine no_files) False 4 (initial_world three_slides)
       = (Some (Exit 1), (initial_world three_slides)\<lparr>stderr := [SlideDoesNotExist 4 3]\<rparr>)
   \<and> delete_slide (sample_collab plain_engine no_files) False 4 (initial_world [])
       = (Some (Exit 1), initial_world [])
   \<and> get_slide_id_by_index three_slides 2 = Some (lit ''s2'')
   \<and> batch_calls (snd (delete_slide (sample_collab plain_engine no_files) False 2
                         (initial_world three_slides)))
       = [([DeleteObject (Some (lit ''s2''))], True)]
   \<and> exit_status (fst (delete_slide (sample_collab plain_engine no_files) False 4
                         (initial_world three_slides))) \<noteq> 0"
proof -
  let ?c = "sample_collab plain_engine no_files"
  let ?w = "initial_world three_slides"
  let ?e = "initial_world []"
  note t4 = delete_slide_outcomes [where c = ?c and verbose = False and w = ?w and n = 4]
  note t2 = delete_slide_outcomes [where c = ?c and verbose = False and w = ?w and n = 2]
  note te = delete_slide_outcomes [where c = ?c and verbose = False and w = ?e and n = 4]
  have g: "get_presentation_slides ?c False ?w = (Inr (Some three_slides), ?w)"
    by (simp add: get_presentation_slides_def sample_collab_def initial_world_def)
  have ge: "get_presentation_slides ?c False ?e = (Inr (Some []), ?e)"
    by (simp add: get_presentation_slides_def sample_collab_def initial_world_def)
  have ne: "three_slides \<noteq> []" by (simp add: three_slides_def)
  have r4: "get_slide_id_by_index three_slides 4 = None"
    by (simp add: get_slide_id_by_index_def three_slides_def)
  have r2: "get_slide_id_by_index three_slides 2 = Some (lit ''s2'')"
    by (simp add: get_slide_id_by_index_def three_slides_def slide_with_id_def)
  from t4 [THEN conjunct1, rule_format, of three_slides ?w] g ne r4
  have a: "delete_slide ?c False 4 ?w =
      (Some (Exit 1), echo_err (SlideDoesNotExist 4 (length three_slides)) ?w)"
    by simp
  then have a': "delete_slide ?c False 4 ?w =
      (Some (Exit 1), ?w\<lparr>stderr := [SlideDoesNotExist 4 3]\<rparr>)"
    by (simp add: echo_err_def initial_world_def three_slides_def)
  from te [THEN conjunct2, THEN conjunct1, rule_format, of "Some []" ?e] ge
  have b: "delete_slide ?c False 4 ?e = (Some (Exit 1), ?e)"
    by simp
  obtain r w' where rw: "delete_slide ?c False 2 ?w = (r, w')"
    by (cases "delete_slide ?c False 2 ?w") 
  have ch: "batch_calls w' \<noteq> batch_calls ?w"
    using rw g r2 ne
    by (simp add: delete_slide_def delete_slide_by_id_def batch_update_def echo_def echo_err_def
        sample_collab_def deck_batchUpdate_def initial_world_def split: prod.splits option.splits)
        auto
  note t2c = t2 [THEN conjunct2, THEN conjunct2, THEN conjunct1, rule_format, OF rw]
  with ch obtain slides sid ok w1
    where f: "get_presentation_slides ?c False ?w = (Inr (Some slides), w1)"
      and s: "get_slide_id_by_index slides 2 = Some sid"
      and k: "batch_calls w' = batch_calls ?w @ [([DeleteObject (Some sid)], ok)]"
    by blast
  from f g have "slides = three_slides" by simp
  with s r2 have "sid = lit ''s2''" by simp
  with k have "batch_calls w' = batch_calls ?w @ [([DeleteObject (Some (lit ''s2''))], ok)]"
    by simp
  moreover have "snd (last (batch_calls w'))"
    using rw g r2 ne
    by (auto simp: delete_slide_def delete_slide_by_id_def batch_update_def echo_def
        sample_collab_def deck_batchUpdate_def initial_world_def)
  ultimately have c: "batch_calls (snd (delete_slide ?c False 2 ?w)) =
      [([DeleteObject (Some (lit ''s2''))], True)]"
    using rw by (simp add: initial_world_def)
  have "batch_calls (?w\<lparr>stderr := [SlideDoesNotExist 4 3]\<rparr>) = batch_calls ?w"
    by simp
  with a' have d: "exit_status (fst (delete_slide ?c False 4 ?w)) \<noteq> 0"
    using t4 [THEN conjunct2, THEN conjunct2, THEN conjunct2, rule_format,
              of "Some (Exit 1)" "?w\<lparr>stderr := [SlideDoesNotExist 4 3]\<rparr>"]
    by simp
  from a' b r4 r2 c d show ?thesis by simp
qed

text \<open>
  The claim as it was stated fails on a deck without slides: no slide number resolves
  there, and the command leaves at \<open>if not slides\<close> with exit status 1 before the
  report, so nothing is written to the error stream.
\<close>

theorem delete_slide_empty_deck_counterexample:
  "get_slide_id_by_index [] 1 = None
   \<and> delete_slide (sample_collab plain_engine no_files) False 1 (initial_world [])
       = (Some (Exit 1), initial_world [])
   \<and> stderr (initial_world []) = []"
  by (simp add: get_slide_id_by_index_def delete_slide_def get_presentation_slides_def
      sample_collab_def initial_world_def)

section \<open>The render context\<close>

text \<open>
  Claim C10. Every call of \<open>render_jinja_in_string\<close> that a command makes reads the
  clock anew: the context of the call binds \<open>now\<close> to the local time at that call, and
  the next call binds it to the next reading, not to the first one. The caller's data
  take precedence: when they hold the key \<open>now\<close>, the template sees the caller's value,
  and every other name has the caller's value as well.
\<close>

theorem render_jinja_now_precedence:
  "render_call c tmpl ctx w =
     (jinja_env c tmpl (render_data (localtime c (clock w)) (Some ctx)),
      w\<lparr>clock := Suc (clock w)\<rparr>)
   \<and> (\<forall>r w1. render_call c tmpl ctx w = (r, w1) \<longrightarrow>
         render_call c tmpl' ctx w1 =
           (jinja_env c tmpl' (render_data (localtime c (Suc (clock w))) (Some ctx)),
            w\<lparr>clock := Suc (Suc (clock w))\<rparr>))
   \<and> render_jinja_in_string je now tmpl data = je tmpl (render_data now data)
   \<and> (\<forall>d v. data = Some d \<and> d (lit ''now'') = Some v \<longrightarrow>
         render_data now data (lit ''now'') = Some v)
   \<and> (\<forall>d. data = Some d \<and> d (lit ''now'') = None \<longrightarrow>
         render_data now data (lit ''now'') = Some (VTime now))
   \<and> (data = None \<longrightarrow> render_data now data (lit ''now'') = Some (VTime now))
   \<and> (\<forall>d k. data = Some d \<and> k \<noteq> lit ''now'' \<longrightarrow> render_data now data k = d k)"
proof -
  have a: "render_call c tmpl ctx w =
     (jinja_env c tmpl (render_data (localtime c (clock w)) (Some ctx)),
      w\<lparr>clock := Suc (clock w)\<rparr>)"
    by (simp add: render_call_def render_jinja_in_string_def)
  have b: "\<forall>r w1. render_call c tmpl ctx w = (r, w1) \<longrightarrow>
         render_call c tmpl' ctx w1 =
           (jinja_env c tmpl' (render_data (localtime c (Suc (clock w))) (Some ctx)),
            w\<lparr>clock := Suc (Suc (clock w))\<rparr>)"
    by (auto simp: render_call_def render_jinja_in_string_def)
  have c: "render_jinja_in_string je now tmpl data = je tmpl (render_data now data)"
    by (simp add: render_jinja_in_string_def)
  have d: "(\<forall>d v. data = Some d \<and> d (lit ''now'') = Some v \<longrightarrow>
         render_data now data (lit ''now'') = Some v)
   \<and> (\<forall>d. data = Some d \<and> d (lit ''now'') = None \<longrightarrow>
         render_data now data (lit ''now'') = Some (VTime now))
   \<and> (data = None \<longrightarrow> render_data now data (lit ''now'') = Some (VTime now))
   \<and> (\<forall>d k. data = Some d \<and> k \<noteq> lit ''now'' \<longrightarrow> render_data now data k = d k)"
    by (auto simp: render_data_def map_add_def split: option.splits)
  from a b c d show ?thesis by (intro conjI) simp_all
qed

theorem render_jinja_now_precedence_witness:
  "fst (render_call (sample_collab now_reader no_files) (lit ''d='') Map.empty (initial_world []))
     = Inr (lit ''d=1'')
   \<and> fst (render_call (sample_collab now_reader no_files) (lit ''e='') Map.empty
            (snd (render_call (sample_collab now_reader no_files) (lit ''d='') Map.empty
                    (initial_world []))))
     = Inr (lit ''e=2'')
   \<and> fst (render_call (sample_collab now_reader no_files) (lit ''d='')
            [lit ''now'' \<mapsto> VStr (lit ''mine'')] (initial_world []))
     = Inr (lit ''d=mine'')"
proof -
  let ?c = "sample_collab now_reader no_files"
  let ?w = "initial_world []"
  let ?mine = "[lit ''now'' \<mapsto> VStr (lit ''mine'')]"
  note t = render_jinja_now_precedence
    [where c = ?c and w = ?w and tmpl = "lit ''d=''" and tmpl' = "lit ''e=''"
       and ctx = Map.empty and je = now_reader and now = "day 1" and data = "Some Map.empty"]
  note u = render_jinja_now_precedence
    [where c = ?c and w = ?w and tmpl = "lit ''d=''" and tmpl' = "lit ''e=''"
       and ctx = ?mine and je = now_reader and now = "day 1" and data = "Some ?mine"]
  have ck: "clock ?w = 0" "localtime ?c 0 = day 1" "localtime ?c (Suc 0) = day 2"
    "jinja_env ?c = now_reader"
    by (simp_all add: initial_world_def sample_collab_def)
  have n1: "render_data (day 1) (Some Map.empty) (lit ''now'') = Some (VTime (day 1))"
    using t [THEN conjunct2, THEN conjunct2, THEN conjunct2, THEN conjunct2, THEN conjunct1]
    by simp
  have n2: "render_data (day 2) (Some Map.empty) (lit ''now'') = Some (VTime (day 2))"
    using render_jinja_now_precedence
      [where c = ?c and w = ?w and ctx = Map.empty and je = now_reader and now = "day 2"
         and data = "Some Map.empty",
       THEN conjunct2, THEN conjunct2, THEN conjunct2, THEN conjunct2, THEN conjunct1]
    by simp
  have n3: "render_data (day 1) (Some ?mine) (lit ''now'') = Some (VStr (lit ''mine''))"
    using u [THEN conjunct2, THEN conjunct2, THEN conjunct2, THEN conjunct1]
    by simp
  have a: "fst (render_call ?c (lit ''d='') Map.empty ?w) = Inr (lit ''d=1'')"
    using t [THEN conjunct1] n1 ck
    by (simp add: now_reader_def day_def format_d_def digits.simps lit_def)
  have b: "fst (render_call ?c (lit ''e='') Map.empty
                 (snd (render_call ?c (lit ''d='') Map.empty ?w))) = Inr (lit ''e=2'')"
    using t [THEN conjunct2, THEN conjunct1, rule_format,
             of "fst (render_call ?c (lit ''d='') Map.empty ?w)"
                "snd (render_call ?c (lit ''d='') Map.empty ?w)"] n2 ck
    by (simp add: now_reader_def day_def format_d_def digits.simps lit_def)
  have c: "fst (render_call ?c (lit ''d='') ?mine ?w) = Inr (lit ''d=mine'')"
    using u [THEN conjunct1] n3 ck
    by (simp add: now_reader_def lit_def)
  from a b c show ?thesis by simp
qed

end
